theory Spec2Isabelle
  imports Main "HOL-Library.AList"
begin

section \<open>Home Connect component: values, dictionaries and exceptions\<close>

text \<open>
  The component is \<^verbatim>\<open>homeassistant/components/home_connect/__init__.py\<close>.
  Service-call payloads hold strings and integers; \<open>PNone\<close> is Python's
  \<^verbatim>\<open>None\<close>, the default of \<^verbatim>\<open>call.data.get(k, None)\<close>.
  A Python dict keeps insertion order and has unique keys: it is an association list,
  read with \<open>map_of\<close> and written with \<open>AList.update\<close> (replace in place, else append).
\<close>

datatype pyval = PNone | PInt int | PStr string

type_synonym pydict = "(string \<times> pyval) list"

text \<open>
  Exceptions of the module and its collaborators: a missing dict key, voluptuous'
  \<^verbatim>\<open>Invalid\<close>, the transport's \<^verbatim>\<open>HTTPError\<close> with the status code of its
  response, and the vendor library's own \<^verbatim>\<open>HomeConnectError\<close>, which the module
  imports and which that library raises when the vendor's API answers with an error.
\<close>

datatype exn = KeyError | Invalid | HTTPError int | HomeConnectError

text \<open>\<^verbatim>\<open>d[k]\<close> raises \<^verbatim>\<open>KeyError\<close> on a missing key; \<^verbatim>\<open>d.get(k, dflt)\<close> does not.\<close>

definition getitem :: "(string \<times> 'v) list \<Rightarrow> string \<Rightarrow> exn + 'v" where
  "getitem d k = (case map_of d k of None \<Rightarrow> Inl KeyError | Some v \<Rightarrow> Inr v)"

definition dict_get :: "pydict \<Rightarrow> string \<Rightarrow> pyval \<Rightarrow> pyval" where
  "dict_get d k dflt = (case map_of d k of None \<Rightarrow> dflt | Some v \<Rightarrow> v)"

subsection \<open>Constants imported from const.py and homeassistant.const\<close>

text \<open>
  The module imports its string constants from \<^verbatim>\<open>.const\<close> and
  \<^verbatim>\<open>homeassistant.const\<close>, which are not among the sources. Every function below
  takes them as the parameter \<open>c\<close>; a theorem that needs two of them to differ says so.
\<close>

record hc_const =
  ATTR_ENTITY_ID :: string
  CONF_CLIENT_ID :: string
  CONF_CLIENT_SECRET :: string
  ATTR_KEY :: string
  ATTR_OPTION_KEY :: string
  ATTR_OPTION_UNIT :: string
  ATTR_OPTION_VALUE :: string
  ATTR_PROGRAM :: string
  ATTR_UNIT :: string
  ATTR_VALUE :: string
  BSH_PAUSE :: string
  BSH_RESUME :: string
  DOMAIN :: string
  OAUTH2_AUTHORIZE :: string
  OAUTH2_TOKEN :: string
  SERVICE_OPTION_ACTIVE :: string
  SERVICE_OPTION_SELECTED :: string
  SERVICE_PAUSE :: string
  SERVICE_RESUME :: string
  SERVICE_SELECT :: string
  SERVICE_SETTING :: string
  SERVICE_START :: string

text \<open>\<^verbatim>\<open>SCAN_INTERVAL = timedelta(minutes=1)\<close>; time is counted in microseconds,
  the resolution of \<^verbatim>\<open>datetime\<close>.\<close>

definition timedelta_minutes :: "int \<Rightarrow> int" where
  "timedelta_minutes m = m * 60000000"

definition SCAN_INTERVAL :: int where
  "SCAN_INTERVAL = timedelta_minutes 1"

definition PLATFORMS :: "string list" where
  "PLATFORMS = [''binary_sensor'', ''light'', ''sensor'', ''switch'']"

subsection \<open>Data model\<close>

text \<open>
  An appliance handle is the vendor library's object; only its identity matters here.
  A device wrapper (\<^verbatim>\<open>api.HomeConnectDevice\<close>) owns the handle and its entities; an
  entity's \<^verbatim>\<open>entity_id\<close> is \<^verbatim>\<open>None\<close> until the host has named it. The poller's
  device dicts are read at one key only (\<^verbatim>\<open>dev_dict[CONF_DEVICE]\<close>,
  \<^verbatim>\<open>device_dict["device"]\<close>), so a device dict is a record with that field.
  \<^verbatim>\<open>hass.data[DOMAIN]\<close> maps a config entry's id to its session
  (\<^verbatim>\<open>api.ConfigEntryAuth\<close>); it is absent (\<open>None\<close>) until \<^verbatim>\<open>async_setup\<close> has run.
\<close>

type_synonym appliance = nat

record entity =
  entity_id :: pyval

record HomeConnectDevice =
  appliance :: appliance
  entities :: "entity list"

record dev_dict =
  device :: HomeConnectDevice

record ConfigEntryAuth =
  devices :: "dev_dict list"

record ConfigEntry =
  entry_id :: string

type_synonym options = "pydict list option"

text \<open>
  A job handed to \<^verbatim>\<open>hass.async_add_executor_job\<close>: a method of an appliance handle
  with its positional arguments, a session's \<^verbatim>\<open>get_devices\<close>, or a device's
  \<^verbatim>\<open>initialize\<close>.
\<close>

datatype arg = Val pyval | Opts options

datatype job =
    ApplianceCall appliance string "arg list"
  | GetDevices string
  | Initialize HomeConnectDevice

datatype logrec =
    DebugOptions options
  | ErrorNotFound pyval
  | WarningCannotUpdate int

datatype handler =
    H_option_active | H_option_selected | H_pause | H_resume
  | H_select | H_setting | H_start

datatype schema_id = SETTING_SCHEMA | COMMAND_SCHEMA | PROGRAM_SCHEMA

record LocalOAuth2Implementation =
  impl_domain :: string
  client_id :: pyval
  client_secret :: pyval
  authorize_url :: string
  token_url :: string

text \<open>
  The part of the host's state the module reads or writes: the registry
  \<^verbatim>\<open>hass.data[DOMAIN]\<close>, the jobs run on the executor (in order), the log records, the
  service registry, the registered OAuth implementations, and the throttle record of
  the poller (the time of its last execution, if any).
\<close>

record HomeAssistant =
  hass_data :: "(string \<times> ConfigEntryAuth) list option"
  executor_jobs :: "job list"
  logger :: "logrec list"
  services :: "((string \<times> string) \<times> handler \<times> schema_id) list"
  oauth_impls :: "LocalOAuth2Implementation list"
  throttle :: "int option"

text \<open>
  What the collaborators answer: the device list the vendor returns for an account
  (or the exception of the fetch), whether a blocking call on an appliance or a
  device's initialization raises, whether a platform reports a successful unload of
  an entry, and the host's \<^verbatim>\<open>cv.entity_id\<close> validator.
\<close>

record env =
  fetched :: "string \<Rightarrow> exn + dev_dict list"
  raises :: "job \<Rightarrow> exn option"
  forward_entry_unload :: "string \<Rightarrow> string \<Rightarrow> bool"
  cv_entity_id :: "pyval \<Rightarrow> exn + pyval"

text \<open>\<^verbatim>\<open>await hass.async_add_executor_job(f, *args)\<close>: the job runs, and its exception,
  if any, is raised in the caller.\<close>

definition async_add_executor_job ::
  "env \<Rightarrow> job \<Rightarrow> HomeAssistant \<Rightarrow> (exn + unit) \<times> HomeAssistant" where
  "async_add_executor_job w j h =
     ((case raises w j of None \<Rightarrow> Inr () | Some e \<Rightarrow> Inl e),
      h\<lparr>executor_jobs := executor_jobs h @ [j]\<rparr>)"

subsection \<open>Entity resolver\<close>

text \<open>The three nested loops of \<^verbatim>\<open>_get_appliance_by_entity_id\<close>; the first match returns.\<close>

fun match_entities :: "entity list \<Rightarrow> pyval \<Rightarrow> bool" where
  "match_entities [] eid = False"
| "match_entities (e # es) eid = (if entity_id e = eid then True else match_entities es eid)"

fun scan_devices :: "dev_dict list \<Rightarrow> pyval \<Rightarrow> appliance option" where
  "scan_devices [] eid = None"
| "scan_devices (dd # dds) eid =
     (if match_entities (entities (device dd)) eid then Some (appliance (device dd))
      else scan_devices dds eid)"

fun scan_sessions :: "(string \<times> ConfigEntryAuth) list \<Rightarrow> pyval \<Rightarrow> appliance option" where
  "scan_sessions [] eid = None"
| "scan_sessions ((k, hc) # rest) eid =
     (case scan_devices (devices hc) eid of
        Some a \<Rightarrow> Some a
      | None \<Rightarrow> scan_sessions rest eid)"

definition get_appliance_by_entity_id ::
  "HomeAssistant \<Rightarrow> pyval \<Rightarrow> (exn + appliance option) \<times> HomeAssistant" where
  "get_appliance_by_entity_id h eid =
     (case hass_data h of
        None \<Rightarrow> (Inl KeyError, h)
      | Some reg \<Rightarrow>
          (case scan_sessions reg eid of
             Some a \<Rightarrow> (Inr (Some a), h)
           | None \<Rightarrow> (Inr None, h\<lparr>logger := logger h @ [ErrorNotFound eid]\<rparr>)))"

subsection \<open>Command dispatcher\<close>

text \<open>
  Lines 122 to 131 of \<^verbatim>\<open>_async_service_program\<close>: the option triple read from
  \<^verbatim>\<open>call.data\<close> and the \<^verbatim>\<open>options\<close> argument built from it. The dict starts as
  \<^verbatim>\<open>{ATTR_KEY: option_key, ATTR_VALUE: option_value}\<close> and receives
  \<^verbatim>\<open>ATTR_UNIT\<close> only when a unit is given.
\<close>

definition program_options :: "hc_const \<Rightarrow> pydict \<Rightarrow> options" where
  "program_options c call_data =
     (let option_key = dict_get call_data (ATTR_OPTION_KEY c) PNone;
          option_value = dict_get call_data (ATTR_OPTION_VALUE c) PNone;
          option_unit = dict_get call_data (ATTR_OPTION_UNIT c) PNone
      in if option_key \<noteq> PNone \<and> option_value \<noteq> PNone then
           (let opts = AList.update (ATTR_VALUE c) option_value
                         (AList.update (ATTR_KEY c) option_key [])
            in Some [if option_unit \<noteq> PNone
                     then AList.update (ATTR_UNIT c) option_unit opts else opts])
         else None)"

text \<open>The inner functions of \<^verbatim>\<open>async_setup\<close> (the leading underscore of the Python
  names is dropped). Each returns the exception raised, if any, and the host's state.\<close>

definition async_service_program ::
  "hc_const \<Rightarrow> env \<Rightarrow> HomeAssistant \<Rightarrow> pydict \<Rightarrow> string \<Rightarrow> (exn + unit) \<times> HomeAssistant" where
  "async_service_program c w h call_data method =
     (case getitem call_data (ATTR_PROGRAM c) of
        Inl e \<Rightarrow> (Inl e, h)
      | Inr program \<Rightarrow>
     (case getitem call_data (ATTR_ENTITY_ID c) of
        Inl e \<Rightarrow> (Inl e, h)
      | Inr eid \<Rightarrow>
     (let opts = program_options c call_data;
          h1 = h\<lparr>logger := logger h @ [DebugOptions opts]\<rparr>
      in case get_appliance_by_entity_id h1 eid of
           (Inl e, h2) \<Rightarrow> (Inl e, h2)
         | (Inr None, h2) \<Rightarrow> (Inr (), h2)
         | (Inr (Some a), h2) \<Rightarrow>
             async_add_executor_job w (ApplianceCall a method [Val program, Opts opts]) h2)))"

definition async_service_command ::
  "hc_const \<Rightarrow> env \<Rightarrow> HomeAssistant \<Rightarrow> pydict \<Rightarrow> string \<Rightarrow> (exn + unit) \<times> HomeAssistant" where
  "async_service_command c w h call_data command =
     (case getitem call_data (ATTR_ENTITY_ID c) of
        Inl e \<Rightarrow> (Inl e, h)
      | Inr eid \<Rightarrow>
     (case get_appliance_by_entity_id h eid of
        (Inl e, h2) \<Rightarrow> (Inl e, h2)
      | (Inr None, h2) \<Rightarrow> (Inr (), h2)
      | (Inr (Some a), h2) \<Rightarrow>
          async_add_executor_job w
            (ApplianceCall a ''execute_command'' [Val (PStr command)]) h2))"

definition async_service_key_value ::
  "hc_const \<Rightarrow> env \<Rightarrow> HomeAssistant \<Rightarrow> pydict \<Rightarrow> string \<Rightarrow> (exn + unit) \<times> HomeAssistant" where
  "async_service_key_value c w h call_data method =
     (case getitem call_data (ATTR_KEY c) of
        Inl e \<Rightarrow> (Inl e, h)
      | Inr key \<Rightarrow>
     (case getitem call_data (ATTR_VALUE c) of
        Inl e \<Rightarrow> (Inl e, h)
      | Inr val \<Rightarrow>
     (case getitem call_data (ATTR_ENTITY_ID c) of
        Inl e \<Rightarrow> (Inl e, h)
      | Inr eid \<Rightarrow>
     (case get_appliance_by_entity_id h eid of
        (Inl e, h2) \<Rightarrow> (Inl e, h2)
      | (Inr None, h2) \<Rightarrow> (Inr (), h2)
      | (Inr (Some a), h2) \<Rightarrow>
          async_add_executor_job w (ApplianceCall a method [Val key, Val val]) h2))))"

definition async_service_option_active ::
  "hc_const \<Rightarrow> env \<Rightarrow> HomeAssistant \<Rightarrow> pydict \<Rightarrow> (exn + unit) \<times> HomeAssistant" where
  "async_service_option_active c w h call_data =
     async_service_key_value c w h call_data ''set_options_active_program''"

definition async_service_option_selected ::
  "hc_const \<Rightarrow> env \<Rightarrow> HomeAssistant \<Rightarrow> pydict \<Rightarrow> (exn + unit) \<times> HomeAssistant" where
  "async_service_option_selected c w h call_data =
     async_service_key_value c w h call_data ''set_options_selected_program''"

definition async_service_pause ::
  "hc_const \<Rightarrow> env \<Rightarrow> HomeAssistant \<Rightarrow> pydict \<Rightarrow> (exn + unit) \<times> HomeAssistant" where
  "async_service_pause c w h call_data = async_service_command c w h call_data (BSH_PAUSE c)"

definition async_service_resume ::
  "hc_const \<Rightarrow> env \<Rightarrow> HomeAssistant \<Rightarrow> pydict \<Rightarrow> (exn + unit) \<times> HomeAssistant" where
  "async_service_resume c w h call_data = async_service_command c w h call_data (BSH_RESUME c)"

definition async_service_select ::
  "hc_const \<Rightarrow> env \<Rightarrow> HomeAssistant \<Rightarrow> pydict \<Rightarrow> (exn + unit) \<times> HomeAssistant" where
  "async_service_select c w h call_data =
     async_service_program c w h call_data (SERVICE_SELECT c)"

definition async_service_setting ::
  "hc_const \<Rightarrow> env \<Rightarrow> HomeAssistant \<Rightarrow> pydict \<Rightarrow> (exn + unit) \<times> HomeAssistant" where
  "async_service_setting c w h call_data =
     async_service_key_value c w h call_data ''set_setting''"

definition async_service_start ::
  "hc_const \<Rightarrow> env \<Rightarrow> HomeAssistant \<Rightarrow> pydict \<Rightarrow> (exn + unit) \<times> HomeAssistant" where
  "async_service_start c w h call_data =
     async_service_program c w h call_data (SERVICE_START c)"

text \<open>The callback behind each registered handler.\<close>

fun run_handler ::
  "handler \<Rightarrow> hc_const \<Rightarrow> env \<Rightarrow> HomeAssistant \<Rightarrow> pydict \<Rightarrow> (exn + unit) \<times> HomeAssistant" where
  "run_handler H_option_active = async_service_option_active"
| "run_handler H_option_selected = async_service_option_selected"
| "run_handler H_pause = async_service_pause"
| "run_handler H_resume = async_service_resume"
| "run_handler H_select = async_service_select"
| "run_handler H_setting = async_service_setting"
| "run_handler H_start = async_service_start"

subsection \<open>Service schemas\<close>

text \<open>
  Python's \<^verbatim>\<open>str\<close> on the payload values: an integer prints in decimal, a string is
  itself.
\<close>

definition digit_char :: "nat \<Rightarrow> char" where
  "digit_char n = ''0123456789'' ! n"

function digits :: "nat \<Rightarrow> string" where
  "digits n = (if n < 10 then [digit_char n] else digits (n div 10) @ [digit_char (n mod 10)])"
  by pat_completeness auto
termination
  by (relation "measure (\<lambda>n. n)") auto

declare digits.simps [simp del]

definition str_int :: "int \<Rightarrow> string" where
  "str_int i = (if i < 0 then CHR ''-'' # digits (nat (- i)) else digits (nat i))"

fun py_str :: "pyval \<Rightarrow> string" where
  "py_str PNone = ''None''"
| "py_str (PInt i) = str_int i"
| "py_str (PStr s) = s"

text \<open>
  The validators the schemas name: the type \<^verbatim>\<open>str\<close> accepts a string as it is,
  \<^verbatim>\<open>vol.Any(int, str)\<close> an integer or a string as it is, and \<^verbatim>\<open>vol.Coerce(str)\<close>
  replaces the value by \<^verbatim>\<open>str(value)\<close>.
\<close>

type_synonym validator = "pyval \<Rightarrow> exn + pyval"

definition v_str :: validator where
  "v_str v = (case v of PStr s \<Rightarrow> Inr v | _ \<Rightarrow> Inl Invalid)"

definition v_int :: validator where
  "v_int v = (case v of PInt i \<Rightarrow> Inr v | _ \<Rightarrow> Inl Invalid)"

fun Any :: "validator list \<Rightarrow> validator" where
  "Any [] v = Inl Invalid"
| "Any (f # fs) v = (case f v of Inr v' \<Rightarrow> Inr v' | Inl e \<Rightarrow> Any fs v)"

definition Coerce_str :: validator where
  "Coerce_str v = Inr (PStr (py_str v))"

text \<open>
  \<^verbatim>\<open>vol.Schema\<close> of a dict of \<^verbatim>\<open>Required\<close> and \<^verbatim>\<open>Optional\<close> keys: every item of
  the data is validated by the validator of its key and an unknown key is refused
  (extra keys are not allowed); then every required key must have been given. The
  output holds the validated values, in the order of the data.
\<close>

datatype marker = Required | Optional

type_synonym schema = "(string \<times> marker \<times> validator) list"

fun validate_items :: "schema \<Rightarrow> pydict \<Rightarrow> exn + pydict" where
  "validate_items s [] = Inr []"
| "validate_items s ((k, v) # kvs) =
     (case map_of s k of
        None \<Rightarrow> Inl Invalid
      | Some (m, f) \<Rightarrow>
          (case f v of
             Inl e \<Rightarrow> Inl e
           | Inr v' \<Rightarrow>
               (case validate_items s kvs of
                  Inl e \<Rightarrow> Inl e
                | Inr out \<Rightarrow> Inr ((k, v') # out))))"

fun required_given :: "schema \<Rightarrow> pydict \<Rightarrow> bool" where
  "required_given [] d = True"
| "required_given ((k, m, f) # s) d =
     ((m = Optional \<or> map_of d k \<noteq> None) \<and> required_given s d)"

definition Schema :: "schema \<Rightarrow> pydict \<Rightarrow> exn + pydict" where
  "Schema s d =
     (case validate_items s d of
        Inl e \<Rightarrow> Inl e
      | Inr out \<Rightarrow> if required_given s d then Inr out else Inl Invalid)"

definition SERVICE_SETTING_SCHEMA :: "hc_const \<Rightarrow> env \<Rightarrow> pydict \<Rightarrow> exn + pydict" where
  "SERVICE_SETTING_SCHEMA c w =
     Schema [(ATTR_ENTITY_ID c, Required, cv_entity_id w),
             (ATTR_KEY c, Required, v_str),
             (ATTR_VALUE c, Required, Coerce_str)]"

definition SERVICE_PROGRAM_SCHEMA :: "hc_const \<Rightarrow> env \<Rightarrow> pydict \<Rightarrow> exn + pydict" where
  "SERVICE_PROGRAM_SCHEMA c w =
     Schema [(ATTR_ENTITY_ID c, Required, cv_entity_id w),
             (ATTR_PROGRAM c, Required, v_str),
             (ATTR_OPTION_KEY c, Optional, v_str),
             (ATTR_OPTION_VALUE c, Optional, Any [v_int, v_str]),
             (ATTR_OPTION_UNIT c, Optional, v_str)]"

definition SERVICE_COMMAND_SCHEMA :: "hc_const \<Rightarrow> env \<Rightarrow> pydict \<Rightarrow> exn + pydict" where
  "SERVICE_COMMAND_SCHEMA c w = Schema [(ATTR_ENTITY_ID c, Required, cv_entity_id w)]"

subsection \<open>Module setup\<close>

text \<open>\<^verbatim>\<open>hass.services.async_register(domain, service, handler, schema=...)\<close> stores
  the handler and its schema under the pair of names.\<close>

definition async_register ::
  "string \<Rightarrow> string \<Rightarrow> handler \<Rightarrow> schema_id \<Rightarrow> HomeAssistant \<Rightarrow> HomeAssistant" where
  "async_register domain svc f s h =
     h\<lparr>services := AList.update (domain, svc) (f, s) (services h)\<rparr>"

definition has_service :: "HomeAssistant \<Rightarrow> string \<Rightarrow> string \<Rightarrow> bool" where
  "has_service h domain svc = (map_of (services h) (domain, svc) \<noteq> None)"

definition async_register_implementation ::
  "LocalOAuth2Implementation \<Rightarrow> HomeAssistant \<Rightarrow> HomeAssistant" where
  "async_register_implementation impl h = h\<lparr>oauth_impls := oauth_impls h @ [impl]\<rparr>"

text \<open>The seven registrations at the end of \<^verbatim>\<open>async_setup\<close>, in the source's order.\<close>

definition register_services :: "hc_const \<Rightarrow> HomeAssistant \<Rightarrow> HomeAssistant" where
  "register_services c h =
     (let h1 = async_register (DOMAIN c) (SERVICE_OPTION_ACTIVE c) H_option_active SETTING_SCHEMA h;
          h2 = async_register (DOMAIN c) (SERVICE_OPTION_SELECTED c) H_option_selected SETTING_SCHEMA h1;
          h3 = async_register (DOMAIN c) (SERVICE_SETTING c) H_setting SETTING_SCHEMA h2;
          h4 = async_register (DOMAIN c) (SERVICE_PAUSE c) H_pause COMMAND_SCHEMA h3;
          h5 = async_register (DOMAIN c) (SERVICE_RESUME c) H_resume COMMAND_SCHEMA h4;
          h6 = async_register (DOMAIN c) (SERVICE_SELECT c) H_select PROGRAM_SCHEMA h5
      in async_register (DOMAIN c) (SERVICE_START c) H_start PROGRAM_SCHEMA h6)"

definition async_setup ::
  "hc_const \<Rightarrow> HomeAssistant \<Rightarrow> (string \<times> pydict) list \<Rightarrow> (exn + bool) \<times> HomeAssistant" where
  "async_setup c h config =
     (let h0 = h\<lparr>hass_data := Some []\<rparr>
      in if map_of config (DOMAIN c) = None then (Inr True, h0)
         else
           (case getitem config (DOMAIN c) of
              Inl e \<Rightarrow> (Inl e, h0)
            | Inr conf \<Rightarrow>
           (case getitem conf (CONF_CLIENT_ID c) of
              Inl e \<Rightarrow> (Inl e, h0)
            | Inr cid \<Rightarrow>
           (case getitem conf (CONF_CLIENT_SECRET c) of
              Inl e \<Rightarrow> (Inl e, h0)
            | Inr secret \<Rightarrow>
                (Inr True,
                 register_services c
                   (async_register_implementation
                      \<lparr>impl_domain = DOMAIN c, client_id = cid, client_secret = secret,
                        authorize_url = OAUTH2_AUTHORIZE c, token_url = OAUTH2_TOKEN c\<rparr>
                      h0))))))"

subsection \<open>Unloading a config entry\<close>

text \<open>Python's \<^verbatim>\<open>all\<close> over the gathered results, one per platform.\<close>

fun all_py :: "bool list \<Rightarrow> bool" where
  "all_py [] = True"
| "all_py (b # bs) = (if b then all_py bs else False)"

text \<open>\<^verbatim>\<open>hass.data[DOMAIN].pop(entry.entry_id)\<close> has no default: a missing key raises.\<close>

definition async_unload_entry ::
  "env \<Rightarrow> HomeAssistant \<Rightarrow> ConfigEntry \<Rightarrow> (exn + bool) \<times> HomeAssistant" where
  "async_unload_entry w h entry =
     (let unload_ok = all_py (map (forward_entry_unload w (entry_id entry)) PLATFORMS)
      in if unload_ok then
           (case hass_data h of
              None \<Rightarrow> (Inl KeyError, h)
            | Some reg \<Rightarrow>
                (case map_of reg (entry_id entry) of
                   None \<Rightarrow> (Inl KeyError, h)
                 | Some hc \<Rightarrow>
                     (Inr unload_ok,
                      h\<lparr>hass_data := Some (AList.delete (entry_id entry) reg)\<rparr>)))
         else (Inr unload_ok, h))"

subsection \<open>Poller\<close>

text \<open>
  Modelled from the spec: \<^verbatim>\<open>ConfigEntryAuth.get_devices\<close> (api.py) is not among the
  sources. The spec: the poll re-fetches the device list for the account from the
  vendor; device records are replaced wholesale on each refresh; and after a
  transport failure the device list may be updated with initializations skipped. So a
  successful fetch replaces the session's \<open>devices\<close>, which the source reads next,
  and a failed one raises and leaves them.
\<close>

definition get_devices :: "env \<Rightarrow> string \<Rightarrow> ConfigEntryAuth \<Rightarrow> exn + ConfigEntryAuth" where
  "get_devices w eid hc_api =
     (case fetched w eid of
        Inl e \<Rightarrow> Inl e
      | Inr ds \<Rightarrow> Inr (hc_api\<lparr>devices := ds\<rparr>))"

text \<open>The loop over \<^verbatim>\<open>hc_api.devices\<close>; the first exception leaves it.\<close>

fun initialize_all ::
  "env \<Rightarrow> dev_dict list \<Rightarrow> HomeAssistant \<Rightarrow> (exn + unit) \<times> HomeAssistant" where
  "initialize_all w [] h = (Inr (), h)"
| "initialize_all w (dd # dds) h =
     (case async_add_executor_job w (Initialize (device dd)) h of
        (Inl e, h1) \<Rightarrow> (Inl e, h1)
      | (Inr u, h1) \<Rightarrow> initialize_all w dds h1)"

text \<open>The \<^verbatim>\<open>try\<close> block. The session is the object stored in the registry, so its
  new device list is the registry's.\<close>

definition poll_cycle ::
  "env \<Rightarrow> HomeAssistant \<Rightarrow> (string \<times> ConfigEntryAuth) list \<Rightarrow> string \<Rightarrow> ConfigEntryAuth
     \<Rightarrow> (exn + unit) \<times> HomeAssistant" where
  "poll_cycle w h reg eid hc_api =
     (let h1 = h\<lparr>executor_jobs := executor_jobs h @ [GetDevices eid]\<rparr>
      in case get_devices w eid hc_api of
           Inl e \<Rightarrow> (Inl e, h1)
         | Inr hc' \<Rightarrow>
             initialize_all w (devices hc')
               (h1\<lparr>hass_data := Some (AList.update eid hc' reg)\<rparr>))"

text \<open>The body of \<^verbatim>\<open>update_all_devices\<close>, without its decorator: only
  \<^verbatim>\<open>HTTPError\<close> is caught.\<close>

definition update_all_devices_body ::
  "env \<Rightarrow> HomeAssistant \<Rightarrow> ConfigEntry \<Rightarrow> (exn + unit) \<times> HomeAssistant" where
  "update_all_devices_body w h entry =
     (case hass_data h of
        None \<Rightarrow> (Inl KeyError, h)
      | Some reg \<Rightarrow>
          (case map_of reg (entry_id entry) of
             None \<Rightarrow> (Inl KeyError, h)
           | Some hc_api \<Rightarrow>
               (case poll_cycle w h reg (entry_id entry) hc_api of
                  (Inl (HTTPError code), h') \<Rightarrow>
                    (Inr (), h'\<lparr>logger := logger h' @ [WarningCannotUpdate code]\<rparr>)
                | (Inl e, h') \<Rightarrow> (Inl e, h')
                | (Inr u, h') \<Rightarrow> (Inr (), h'))))"

text \<open>
  Modelled from the spec: the decorator \<^verbatim>\<open>homeassistant.util.Throttle\<close> is not among
  the sources. The spec: the poller is rate-limited to at most one execution per
  account per fixed interval (one minute) however often it is triggered, and a trigger
  within the window is a no-op. The source applies the decorator once, to the
  module-level function, and nothing there names an account: the decorator keeps one
  record, the time of the function's last execution, whatever the entry it was called
  for. A call no later than \<open>min_time\<close> after that time returns without running the
  method; any other call records its time and runs it. One execution of the function
  per interval is at most one per account.
\<close>

definition Throttle ::
  "int \<Rightarrow> (HomeAssistant \<Rightarrow> ConfigEntry \<Rightarrow> (exn + unit) \<times> HomeAssistant)
     \<Rightarrow> int \<Rightarrow> HomeAssistant \<Rightarrow> ConfigEntry \<Rightarrow> (exn + unit) \<times> HomeAssistant" where
  "Throttle min_time method now h entry =
     (let run = method (h\<lparr>throttle := Some now\<rparr>) entry
      in case throttle h of
           None \<Rightarrow> run
         | Some t \<Rightarrow> if now - t \<le> min_time then (Inr (), h) else run)"

definition update_all_devices ::
  "env \<Rightarrow> int \<Rightarrow> HomeAssistant \<Rightarrow> ConfigEntry \<Rightarrow> (exn + unit) \<times> HomeAssistant" where
  "update_all_devices w = Throttle SCAN_INTERVAL (update_all_devices_body w)"

subsection \<open>A concrete installation\<close>

text \<open>
  One binding of the constants and one small installation, on which the functions
  are evaluated: an account \<open>acct1\<close> with a dishwasher (appliance 7, two entities) and
  an account \<open>acct2\<close> with an oven (appliance 9, one entity). The collaborators of
  \<open>quiet\<close> never fail; its entity-id validator accepts a string as it is.
\<close>

definition example_const :: hc_const where
  "example_const =
     \<lparr>ATTR_ENTITY_ID = ''entity_id'', CONF_CLIENT_ID = ''client_id'',
      CONF_CLIENT_SECRET = ''client_secret'', ATTR_KEY = ''key'',
      ATTR_OPTION_KEY = ''key'', ATTR_OPTION_UNIT = ''unit'', ATTR_OPTION_VALUE = ''value'',
      ATTR_PROGRAM = ''program'', ATTR_UNIT = ''unit'', ATTR_VALUE = ''value'',
      BSH_PAUSE = ''BSH.Common.Command.PauseProgram'',
      BSH_RESUME = ''BSH.Common.Command.ResumeProgram'',
      DOMAIN = ''home_connect'',
      OAUTH2_AUTHORIZE = ''https://api.home-connect.com/security/oauth/authorize'',
      OAUTH2_TOKEN = ''https://api.home-connect.com/security/oauth/token'',
      SERVICE_OPTION_ACTIVE = ''set_option_active'',
      SERVICE_OPTION_SELECTED = ''set_option_selected'',
      SERVICE_PAUSE = ''pause_program'', SERVICE_RESUME = ''resume_program'',
      SERVICE_SELECT = ''select_program'', SERVICE_SETTING = ''change_setting'',
      SERVICE_START = ''start_program''\<rparr>"

definition dishwasher :: HomeConnectDevice where
  "dishwasher =
     \<lparr>appliance = 7,
      entities = [\<lparr>entity_id = PStr ''switch.dishwasher_power''\<rparr>,
                  \<lparr>entity_id = PStr ''sensor.dishwasher_door''\<rparr>]\<rparr>"

definition oven :: HomeConnectDevice where
  "oven = \<lparr>appliance = 9, entities = [\<lparr>entity_id = PStr ''switch.oven_power''\<rparr>]\<rparr>"

definition example_hass :: HomeAssistant where
  "example_hass =
     \<lparr>hass_data = Some [(''acct1'', \<lparr>devices = [\<lparr>device = dishwasher\<rparr>]\<rparr>),
                         (''acct2'', \<lparr>devices = [\<lparr>device = oven\<rparr>]\<rparr>)],
      executor_jobs = [], logger = [], services = [], oauth_impls = [], throttle = None\<rparr>"

definition accept_str :: "pyval \<Rightarrow> exn + pyval" where
  "accept_str v = (case v of PStr s \<Rightarrow> Inr v | _ \<Rightarrow> Inl Invalid)"

definition quiet :: env where
  "quiet =
     \<lparr>fetched = (\<lambda>eid. Inr []), raises = (\<lambda>j. None),
      forward_entry_unload = (\<lambda>eid component. True), cv_entity_id = accept_str\<rparr>"

text \<open>Payloads of service calls on that installation.\<close>

definition start_call_full :: pydict where
  "start_call_full =
     [(''entity_id'', PStr ''switch.oven_power''), (''program'', PStr ''HotAir''),
      (''key'', PStr ''Temperature''), (''value'', PInt 60), (''unit'', PStr ''C'')]"

definition start_call_no_unit :: pydict where
  "start_call_no_unit =
     [(''entity_id'', PStr ''switch.oven_power''), (''program'', PStr ''HotAir''),
      (''key'', PStr ''Temperature''), (''value'', PInt 60)]"

definition start_call_bare :: pydict where
  "start_call_bare =
     [(''entity_id'', PStr ''switch.oven_power''), (''program'', PStr ''HotAir'')]"

definition setting_call_raw :: pydict where
  "setting_call_raw =
     [(''entity_id'', PStr ''switch.oven_power''), (''key'', PStr ''Temperature''),
      (''value'', PInt 60)]"

definition setting_call_validated :: pydict where
  "setting_call_validated =
     [(''entity_id'', PStr ''switch.oven_power''), (''key'', PStr ''Temperature''),
      (''value'', PStr ''60'')]"

definition fridge_command :: pydict where
  "fridge_command = [(''entity_id'', PStr ''switch.fridge_power'')]"

definition fridge_setting :: pydict where
  "fridge_setting =
     [(''entity_id'', PStr ''switch.fridge_power''), (''key'', PStr ''Temperature''),
      (''value'', PStr ''4'')]"

definition fridge_program :: pydict where
  "fridge_program =
     [(''entity_id'', PStr ''switch.fridge_power''), (''program'', PStr ''SuperCool'')]"

text \<open>
  Two config entries; a host before \<^verbatim>\<open>async_setup\<close>; a startup configuration
  without and with the module's section; and collaborators that fail: one platform
  that refuses to unload, a vendor whose device-list fetch is answered 401 and raised
  as \<^verbatim>\<open>HTTPError\<close>, one whose fetch ends in the vendor library's
  \<^verbatim>\<open>HomeConnectError\<close>, and one that lists the oven and answers 503 to every
  initialization.
\<close>

definition acct1 :: ConfigEntry where
  "acct1 = \<lparr>entry_id = ''acct1''\<rparr>"


definition fresh_hass :: HomeAssistant where
  "fresh_hass =
     \<lparr>hass_data = None, executor_jobs = [], logger = [], services = [], oauth_impls = [],
      throttle = None\<rparr>"

definition unconfigured :: "(string \<times> pydict) list" where
  "unconfigured = [(''http'', [(''server_port'', PInt 8123)])]"

definition configured :: "(string \<times> pydict) list" where
  "configured =
     [(''http'', [(''server_port'', PInt 8123)]),
      (''home_connect'', [(''client_id'', PStr ''id''), (''client_secret'', PStr ''secret'')])]"

definition light_fails :: env where
  "light_fails =
     \<lparr>fetched = (\<lambda>eid. Inr []), raises = (\<lambda>j. None),
      forward_entry_unload = (\<lambda>eid component. component \<noteq> ''light''),
      cv_entity_id = accept_str\<rparr>"

definition fetch_fails :: env where
  "fetch_fails =
     \<lparr>fetched = (\<lambda>eid. Inl (HTTPError 401)), raises = (\<lambda>j. None),
      forward_entry_unload = (\<lambda>eid component. True), cv_entity_id = accept_str\<rparr>"

definition vendor_error :: env where
  "vendor_error =
     \<lparr>fetched = (\<lambda>eid. Inl HomeConnectError), raises = (\<lambda>j. None),
      forward_entry_unload = (\<lambda>eid component. True), cv_entity_id = accept_str\<rparr>"

definition init_fails :: env where
  "init_fails =
     \<lparr>fetched = (\<lambda>eid. Inr [\<lparr>device = oven\<rparr>]),
      raises = (\<lambda>j. case j of Initialize d \<Rightarrow> Some (HTTPError 503) | _ \<Rightarrow> None),
      forward_entry_unload = (\<lambda>eid component. True), cv_entity_id = accept_str\<rparr>"

section \<open>Properties of the resolver and the dispatcher\<close>

lemma match_entities_iff: "match_entities es eid \<longleftrightarrow> (\<exists>e \<in> set es. entity_id e = eid)"
  by (induction es) auto

lemma scan_devices_None:
  "scan_devices dds eid = None \<longleftrightarrow>
     (\<forall>dd \<in> set dds. \<forall>e \<in> set (entities (device dd)). entity_id e \<noteq> eid)"
  by (induction dds) (auto simp: match_entities_iff)

lemma scan_sessions_None:
  "scan_sessions reg eid = None \<longleftrightarrow>
     (\<forall>(k, hc) \<in> set reg. \<forall>dd \<in> set (devices hc).
        \<forall>e \<in> set (entities (device dd)). entity_id e \<noteq> eid)"
proof (induction reg)
  case Nil
  then show ?case by simp
next
  case (Cons p reg)
  obtain k hc where p: "p = (k, hc)" by (cases p)
  show ?case
  proof (cases "scan_devices (devices hc) eid")
    case None
    moreover from None
    have "\<forall>dd \<in> set (devices hc). \<forall>e \<in> set (entities (device dd)). entity_id e \<noteq> eid"
      by (simp add: scan_devices_None)
    ultimately show ?thesis using Cons.IH p by simp
  next
    case (Some a)
    then have "\<not> (\<forall>dd \<in> set (devices hc). \<forall>e \<in> set (entities (device dd)). entity_id e \<noteq> eid)"
      using scan_devices_None [of "devices hc" eid] by simp
    then show ?thesis using Some p by auto
  qed
qed

lemma getitem_Some: "map_of d k = Some v \<Longrightarrow> getitem d k = Inr v"
  by (simp add: getitem_def)

lemma resolver_state:
  "fst (get_appliance_by_entity_id h eid) = Inr (Some a) \<Longrightarrow>
     get_appliance_by_entity_id h eid = (Inr (Some a), h)"
  by (auto simp: get_appliance_by_entity_id_def split: option.splits)

lemma resolver_not_found:
  "hass_data h = Some reg \<Longrightarrow> scan_sessions reg eid = None \<Longrightarrow>
   get_appliance_by_entity_id h eid = (Inr None, h\<lparr>logger := logger h @ [ErrorNotFound eid]\<rparr>)"
  by (simp add: get_appliance_by_entity_id_def)

lemma command_hass_data:
  "hass_data (snd (async_service_command c w h cd cmd)) = hass_data h"
  by (auto simp: async_service_command_def async_add_executor_job_def
        get_appliance_by_entity_id_def split: sum.splits option.splits prod.splits)

lemma key_value_hass_data:
  "hass_data (snd (async_service_key_value c w h cd m)) = hass_data h"
  by (auto simp: async_service_key_value_def async_add_executor_job_def
        get_appliance_by_entity_id_def split: sum.splits option.splits prod.splits)

lemma program_hass_data:
  "hass_data (snd (async_service_program c w h cd m)) = hass_data h"
  by (auto simp: async_service_program_def async_add_executor_job_def Let_def
        get_appliance_by_entity_id_def split: sum.splits option.splits prod.splits)

lemma example_resolves_oven:
  "fst (get_appliance_by_entity_id example_hass (PStr ''switch.oven_power'')) = Inr (Some 9)"
  by (simp add: get_appliance_by_entity_id_def example_hass_def dishwasher_def oven_def)

text \<open>
  C8. For a pause or resume request whose entity resolves to an appliance \<open>a\<close>, the
  dispatcher runs exactly one executor job, \<open>a\<close>'s \<^verbatim>\<open>execute_command\<close> with the
  pause verb (for pause) or the resume verb (for resume) as its only argument, and
  changes nothing else of the host's state.
\<close>

theorem pause_resume_command:
  assumes "map_of call_data (ATTR_ENTITY_ID c) = Some eid"
    and "fst (get_appliance_by_entity_id h eid) = Inr (Some a)"
  shows "snd (async_service_pause c w h call_data) =
           h\<lparr>executor_jobs := executor_jobs h @
                [ApplianceCall a ''execute_command'' [Val (PStr (BSH_PAUSE c))]]\<rparr>
         \<and> snd (async_service_resume c w h call_data) =
           h\<lparr>executor_jobs := executor_jobs h @
                [ApplianceCall a ''execute_command'' [Val (PStr (BSH_RESUME c))]]\<rparr>"
  using assms
  by (simp add: async_service_pause_def async_service_resume_def async_service_command_def
        getitem_Some resolver_state async_add_executor_job_def)

theorem pause_resume_command_witness:
  "snd (async_service_pause example_const quiet example_hass
          [(''entity_id'', PStr ''switch.oven_power'')]) =
     example_hass\<lparr>executor_jobs :=
       [ApplianceCall 9 ''execute_command'' [Val (PStr ''BSH.Common.Command.PauseProgram'')]]\<rparr>
   \<and> snd (async_service_resume example_const quiet example_hass
          [(''entity_id'', PStr ''switch.oven_power'')]) =
     example_hass\<lparr>executor_jobs :=
       [ApplianceCall 9 ''execute_command'' [Val (PStr ''BSH.Common.Command.ResumeProgram'')]]\<rparr>"
proof -
  have 1: "map_of [(''entity_id'', PStr ''switch.oven_power'')] (ATTR_ENTITY_ID example_const)
             = Some (PStr ''switch.oven_power'')"
    by (simp add: example_const_def)
  show ?thesis
    using pause_resume_command [OF 1 example_resolves_oven, of quiet]
    by (simp add: example_const_def example_hass_def)
qed

text \<open>
  C9. Whatever the handler (all seven registered callbacks), the payload and the
  vendor's answer, a dispatch leaves the registry \<^verbatim>\<open>hass.data[DOMAIN]\<close> as it was:
  the map of account sessions, and with it every session's device list.
\<close>

theorem dispatch_keeps_registry:
  "hass_data (snd (run_handler f c w h call_data)) = hass_data h"
  by (cases f)
     (simp_all add: async_service_option_active_def async_service_option_selected_def
        async_service_pause_def async_service_resume_def async_service_select_def
        async_service_setting_def async_service_start_def
        command_hass_data key_value_hass_data program_hass_data)

theorem dispatch_keeps_registry_witness:
  "hass_data (snd (run_handler H_start example_const quiet example_hass
      [(''entity_id'', PStr ''switch.oven_power''), (''program'', PStr ''Cooking.Oven.Program.HeatingMode.HotAir'')]))
   = Some [(''acct1'', \<lparr>devices = [\<lparr>device = dishwasher\<rparr>]\<rparr>),
           (''acct2'', \<lparr>devices = [\<lparr>device = oven\<rparr>]\<rparr>)]"
  using dispatch_keeps_registry [of H_start example_const quiet example_hass
      "[(''entity_id'', PStr ''switch.oven_power''), (''program'', PStr ''Cooking.Oven.Program.HeatingMode.HotAir'')]"]
  by (simp add: example_hass_def)

lemma program_job:
  assumes "map_of call_data (ATTR_PROGRAM c) = Some program"
    and "map_of call_data (ATTR_ENTITY_ID c) = Some eid"
    and "fst (get_appliance_by_entity_id h eid) = Inr (Some a)"
  shows "executor_jobs (snd (async_service_program c w h call_data method)) =
           executor_jobs h @
             [ApplianceCall a method [Val program, Opts (program_options c call_data)]]"
proof -
  let ?h1 = "h\<lparr>logger := logger h @ [DebugOptions (program_options c call_data)]\<rparr>"
  from assms(3) have "get_appliance_by_entity_id ?h1 eid = (Inr (Some a), ?h1)"
    by (auto simp: get_appliance_by_entity_id_def split: option.splits)
  then show ?thesis using assms(1,2)
    by (simp add: async_service_program_def getitem_Some Let_def async_add_executor_job_def)
qed

lemma program_options_cases:
  assumes "ATTR_KEY c \<noteq> ATTR_VALUE c" "ATTR_KEY c \<noteq> ATTR_UNIT c" "ATTR_VALUE c \<noteq> ATTR_UNIT c"
  shows "program_options c call_data =
     (let k = dict_get call_data (ATTR_OPTION_KEY c) PNone;
          x = dict_get call_data (ATTR_OPTION_VALUE c) PNone;
          u = dict_get call_data (ATTR_OPTION_UNIT c) PNone
      in if k = PNone \<or> x = PNone then None
         else if u = PNone then Some [[(ATTR_KEY c, k), (ATTR_VALUE c, x)]]
         else Some [[(ATTR_KEY c, k), (ATTR_VALUE c, x), (ATTR_UNIT c, u)]])"
  using assms by (simp add: program_options_def Let_def)

text \<open>
  C1. Select-program and start-program, for an entity that resolves to an appliance
  \<open>a\<close>, run the vendor method named by the action on \<open>a\<close> with the program and with
  \<open>options\<close>: when the payload gives both an option key \<open>k\<close> and an option value \<open>x\<close>,
  a one-element list holding the dict of \<open>k\<close> and \<open>x\<close>, with the unit \<open>u\<close> only when one
  is given; when the key or the value is missing, \<^verbatim>\<open>None\<close>. The three field names of
  the option dict are taken to differ.
\<close>

theorem program_options_passed:
  assumes "ATTR_KEY c \<noteq> ATTR_VALUE c" "ATTR_KEY c \<noteq> ATTR_UNIT c" "ATTR_VALUE c \<noteq> ATTR_UNIT c"
    and "map_of call_data (ATTR_PROGRAM c) = Some program"
    and "map_of call_data (ATTR_ENTITY_ID c) = Some eid"
    and "fst (get_appliance_by_entity_id h eid) = Inr (Some a)"
    and "k = dict_get call_data (ATTR_OPTION_KEY c) PNone"
    and "x = dict_get call_data (ATTR_OPTION_VALUE c) PNone"
    and "u = dict_get call_data (ATTR_OPTION_UNIT c) PNone"
    and "opts = (if k = PNone \<or> x = PNone then None
                 else if u = PNone then Some [[(ATTR_KEY c, k), (ATTR_VALUE c, x)]]
                 else Some [[(ATTR_KEY c, k), (ATTR_VALUE c, x), (ATTR_UNIT c, u)]])"
  shows "executor_jobs (snd (async_service_select c w h call_data)) =
           executor_jobs h @ [ApplianceCall a (SERVICE_SELECT c) [Val program, Opts opts]]
       \<and> executor_jobs (snd (async_service_start c w h call_data)) =
           executor_jobs h @ [ApplianceCall a (SERVICE_START c) [Val program, Opts opts]]"
proof -
  have "program_options c call_data = opts"
    using assms(1-3,7-10) by (simp add: program_options_cases Let_def)
  then show ?thesis
    using program_job [OF assms(4-6)]
    by (simp add: async_service_select_def async_service_start_def)
qed

text \<open>The three payloads of the specification: key, value and unit; key and value;
  neither.\<close>

theorem program_options_passed_witness:
  "executor_jobs (snd (async_service_start example_const quiet example_hass start_call_full)) =
     [ApplianceCall 9 ''start_program''
        [Val (PStr ''HotAir''),
         Opts (Some [[(''key'', PStr ''Temperature''), (''value'', PInt 60),
                      (''unit'', PStr ''C'')]])]]
   \<and> executor_jobs (snd (async_service_start example_const quiet example_hass start_call_no_unit)) =
     [ApplianceCall 9 ''start_program''
        [Val (PStr ''HotAir''),
         Opts (Some [[(''key'', PStr ''Temperature''), (''value'', PInt 60)]])]]
   \<and> executor_jobs (snd (async_service_start example_const quiet example_hass start_call_bare)) =
     [ApplianceCall 9 ''start_program'' [Val (PStr ''HotAir''), Opts None]]"
proof -
  have d: "ATTR_KEY example_const \<noteq> ATTR_VALUE example_const"
    "ATTR_KEY example_const \<noteq> ATTR_UNIT example_const"
    "ATTR_VALUE example_const \<noteq> ATTR_UNIT example_const"
    by (simp_all add: example_const_def)
  have p: "map_of start_call_full (ATTR_PROGRAM example_const) = Some (PStr ''HotAir'')"
    "map_of start_call_no_unit (ATTR_PROGRAM example_const) = Some (PStr ''HotAir'')"
    "map_of start_call_bare (ATTR_PROGRAM example_const) = Some (PStr ''HotAir'')"
    by (simp_all add: example_const_def start_call_full_def start_call_no_unit_def
        start_call_bare_def)
  have e: "map_of start_call_full (ATTR_ENTITY_ID example_const) = Some (PStr ''switch.oven_power'')"
    "map_of start_call_no_unit (ATTR_ENTITY_ID example_const) = Some (PStr ''switch.oven_power'')"
    "map_of start_call_bare (ATTR_ENTITY_ID example_const) = Some (PStr ''switch.oven_power'')"
    by (simp_all add: example_const_def start_call_full_def start_call_no_unit_def
        start_call_bare_def)
  have 1: "executor_jobs (snd (async_service_start example_const quiet example_hass start_call_full)) =
     [ApplianceCall 9 ''start_program''
        [Val (PStr ''HotAir''),
         Opts (Some [[(''key'', PStr ''Temperature''), (''value'', PInt 60),
                      (''unit'', PStr ''C'')]])]]"
    using program_options_passed [OF d p(1) e(1) example_resolves_oven refl refl refl refl,
        of quiet]
    by (simp add: example_const_def example_hass_def start_call_full_def dict_get_def)
  have 2: "executor_jobs (snd (async_service_start example_const quiet example_hass start_call_no_unit)) =
     [ApplianceCall 9 ''start_program''
        [Val (PStr ''HotAir''),
         Opts (Some [[(''key'', PStr ''Temperature''), (''value'', PInt 60)]])]]"
    using program_options_passed [OF d p(2) e(2) example_resolves_oven refl refl refl refl,
        of quiet]
    by (simp add: example_const_def example_hass_def start_call_no_unit_def dict_get_def)
  have 3: "executor_jobs (snd (async_service_start example_const quiet example_hass start_call_bare)) =
     [ApplianceCall 9 ''start_program'' [Val (PStr ''HotAir''), Opts None]]"
    using program_options_passed [OF d p(3) e(3) example_resolves_oven refl refl refl refl,
        of quiet]
    by (simp add: example_const_def example_hass_def start_call_bare_def dict_get_def)
  show ?thesis using 1 2 3 by simp
qed

lemma resolver_not_found_log:
  assumes "hass_data h = Some reg"
    and "\<forall>(k, hc) \<in> set reg. \<forall>dd \<in> set (devices hc).
           \<forall>e \<in> set (entities (device dd)). entity_id e \<noteq> eid"
  shows "get_appliance_by_entity_id (h\<lparr>logger := l\<rparr>) eid =
           (Inr None, h\<lparr>logger := l @ [ErrorNotFound eid]\<rparr>)"
proof -
  have "scan_sessions reg eid = None" using assms(2) by (simp only: scan_sessions_None)
  then show ?thesis using assms(1) by (simp add: get_appliance_by_entity_id_def)
qed

text \<open>
  C2. When the entity identifier of a request equals the identifier of no entity of
  any device of any registered session, the resolver returns \<^verbatim>\<open>None\<close> and logs the
  error, and every handler (all seven; the payload holding the keys its schema
  requires) returns without an exception and without an executor job: the host's
  state differs from the one before only by log records, the last of them the
  resolver's error.
\<close>

theorem unknown_entity_skipped:
  assumes reg: "hass_data h = Some reg"
    and nomatch: "\<forall>(k, hc) \<in> set reg. \<forall>dd \<in> set (devices hc).
           \<forall>e \<in> set (entities (device dd)). entity_id e \<noteq> eid"
    and cmd: "map_of cmd_data (ATTR_ENTITY_ID c) = Some eid"
    and kv: "map_of kv_data (ATTR_ENTITY_ID c) = Some eid"
      "map_of kv_data (ATTR_KEY c) = Some key" "map_of kv_data (ATTR_VALUE c) = Some val"
    and prog: "map_of prog_data (ATTR_ENTITY_ID c) = Some eid"
      "map_of prog_data (ATTR_PROGRAM c) = Some program"
  shows "get_appliance_by_entity_id h eid =
           (Inr None, h\<lparr>logger := logger h @ [ErrorNotFound eid]\<rparr>)
       \<and> async_service_pause c w h cmd_data =
           (Inr (), h\<lparr>logger := logger h @ [ErrorNotFound eid]\<rparr>)
       \<and> async_service_resume c w h cmd_data =
           (Inr (), h\<lparr>logger := logger h @ [ErrorNotFound eid]\<rparr>)
       \<and> async_service_setting c w h kv_data =
           (Inr (), h\<lparr>logger := logger h @ [ErrorNotFound eid]\<rparr>)
       \<and> async_service_option_active c w h kv_data =
           (Inr (), h\<lparr>logger := logger h @ [ErrorNotFound eid]\<rparr>)
       \<and> async_service_option_selected c w h kv_data =
           (Inr (), h\<lparr>logger := logger h @ [ErrorNotFound eid]\<rparr>)
       \<and> async_service_select c w h prog_data =
           (Inr (), h\<lparr>logger := logger h @
              [DebugOptions (program_options c prog_data), ErrorNotFound eid]\<rparr>)
       \<and> async_service_start c w h prog_data =
           (Inr (), h\<lparr>logger := logger h @
              [DebugOptions (program_options c prog_data), ErrorNotFound eid]\<rparr>)"
proof -
  have r: "get_appliance_by_entity_id h eid =
             (Inr None, h\<lparr>logger := logger h @ [ErrorNotFound eid]\<rparr>)"
    using resolver_not_found_log [OF reg nomatch, of "logger h"] by simp
  have c: "async_service_command c w h cmd_data verb =
             (Inr (), h\<lparr>logger := logger h @ [ErrorNotFound eid]\<rparr>)" for verb
    using r cmd by (simp add: async_service_command_def getitem_Some)
  have k: "async_service_key_value c w h kv_data m =
             (Inr (), h\<lparr>logger := logger h @ [ErrorNotFound eid]\<rparr>)" for m
    using r kv by (simp add: async_service_key_value_def getitem_Some)
  have p: "async_service_program c w h prog_data m =
             (Inr (), h\<lparr>logger := logger h @
                [DebugOptions (program_options c prog_data), ErrorNotFound eid]\<rparr>)" for m
    using resolver_not_found_log [OF reg nomatch,
        of "logger h @ [DebugOptions (program_options c prog_data)]"] prog
    by (simp add: async_service_program_def getitem_Some Let_def)
  show ?thesis
    using r c k p
    by (simp add: async_service_pause_def async_service_resume_def
        async_service_setting_def async_service_option_active_def
        async_service_option_selected_def async_service_select_def async_service_start_def)
qed

theorem unknown_entity_skipped_witness:
  "get_appliance_by_entity_id example_hass (PStr ''switch.fridge_power'') =
     (Inr None, example_hass\<lparr>logger := [ErrorNotFound (PStr ''switch.fridge_power'')]\<rparr>)
   \<and> async_service_pause example_const quiet example_hass fridge_command =
     (Inr (), example_hass\<lparr>logger := [ErrorNotFound (PStr ''switch.fridge_power'')]\<rparr>)
   \<and> async_service_setting example_const quiet example_hass fridge_setting =
     (Inr (), example_hass\<lparr>logger := [ErrorNotFound (PStr ''switch.fridge_power'')]\<rparr>)
   \<and> async_service_start example_const quiet example_hass fridge_program =
     (Inr (), example_hass\<lparr>logger :=
        [DebugOptions None, ErrorNotFound (PStr ''switch.fridge_power'')]\<rparr>)"
proof -
  have reg: "hass_data example_hass =
      Some [(''acct1'', \<lparr>devices = [\<lparr>device = dishwasher\<rparr>]\<rparr>),
            (''acct2'', \<lparr>devices = [\<lparr>device = oven\<rparr>]\<rparr>)]"
    by (simp add: example_hass_def)
  have nomatch: "\<forall>(k, hc) \<in> set [(''acct1'', \<lparr>devices = [\<lparr>device = dishwasher\<rparr>]\<rparr>),
            (''acct2'', \<lparr>devices = [\<lparr>device = oven\<rparr>]\<rparr>)]. \<forall>dd \<in> set (devices hc).
           \<forall>e \<in> set (entities (device dd)). entity_id e \<noteq> PStr ''switch.fridge_power''"
    by (simp add: dishwasher_def oven_def)
  have cmd: "map_of fridge_command (ATTR_ENTITY_ID example_const) = Some (PStr ''switch.fridge_power'')"
    by (simp add: fridge_command_def example_const_def)
  have kv: "map_of fridge_setting (ATTR_ENTITY_ID example_const) = Some (PStr ''switch.fridge_power'')"
    "map_of fridge_setting (ATTR_KEY example_const) = Some (PStr ''Temperature'')"
    "map_of fridge_setting (ATTR_VALUE example_const) = Some (PStr ''4'')"
    by (simp_all add: fridge_setting_def example_const_def)
  have prog: "map_of fridge_program (ATTR_ENTITY_ID example_const) = Some (PStr ''switch.fridge_power'')"
    "map_of fridge_program (ATTR_PROGRAM example_const) = Some (PStr ''SuperCool'')"
    by (simp_all add: fridge_program_def example_const_def)
  have o: "program_options example_const fridge_program = None"
    by (simp add: program_options_def fridge_program_def example_const_def dict_get_def)
  have l: "logger example_hass = []" by (simp add: example_hass_def)
  show ?thesis
    using unknown_entity_skipped [OF reg nomatch cmd kv prog, of quiet]
    by (simp add: o l)
qed

section \<open>Properties of the schemas\<close>

lemma validate_items_lookup:
  "validate_items s raw = Inr out \<Longrightarrow> map_of raw k = Some v \<Longrightarrow>
     \<exists>m f v'. map_of s k = Some (m, f) \<and> f v = Inr v' \<and> map_of out k = Some v'"
proof (induction raw arbitrary: out)
  case Nil
  then show ?case by simp
next
  case (Cons p raw)
  obtain k0 v0 where p: "p = (k0, v0)" by (cases p)
  from Cons.prems(1) p obtain m0 f0 v0' out0 where
    s0: "map_of s k0 = Some (m0, f0)" and f0: "f0 v0 = Inr v0'"
    and rest: "validate_items s raw = Inr out0" and out: "out = (k0, v0') # out0"
    by (auto split: option.splits sum.splits)
  show ?case
  proof (cases "k = k0")
    case True
    then show ?thesis using Cons.prems(2) p s0 f0 out by simp
  next
    case False
    then have "map_of raw k = Some v" using Cons.prems(2) p by simp
    from Cons.IH [OF rest this] show ?thesis using False out by simp
  qed
qed

lemma Schema_lookup:
  "Schema s raw = Inr out \<Longrightarrow> map_of raw k = Some v \<Longrightarrow>
     \<exists>m f v'. map_of s k = Some (m, f) \<and> f v = Inr v' \<and> map_of out k = Some v'"
  by (auto simp: Schema_def split: sum.splits if_splits dest: validate_items_lookup)

lemma setting_schema_key_value:
  assumes "ATTR_ENTITY_ID c \<noteq> ATTR_KEY c" "ATTR_ENTITY_ID c \<noteq> ATTR_VALUE c"
    "ATTR_KEY c \<noteq> ATTR_VALUE c"
    and "SERVICE_SETTING_SCHEMA c w raw = Inr call_data"
    and "map_of raw (ATTR_KEY c) = Some key" "map_of raw (ATTR_VALUE c) = Some val"
  shows "map_of call_data (ATTR_KEY c) = Some key
       \<and> map_of call_data (ATTR_VALUE c) = Some (PStr (py_str val))"
proof -
  from Schema_lookup [OF assms(4) [unfolded SERVICE_SETTING_SCHEMA_def] assms(5)] assms(1-3)
  have 1: "v_str key = Inr key \<and> map_of call_data (ATTR_KEY c) = Some key"
    by (auto simp: v_str_def split: pyval.splits)
  from Schema_lookup [OF assms(4) [unfolded SERVICE_SETTING_SCHEMA_def] assms(6)] assms(1-3)
  have 2: "map_of call_data (ATTR_VALUE c) = Some (PStr (py_str val))"
    by (auto simp: Coerce_str_def)
  show ?thesis using 1 2 by simp
qed

lemma key_value_job:
  assumes "map_of call_data (ATTR_KEY c) = Some key"
    and "map_of call_data (ATTR_VALUE c) = Some val"
    and "map_of call_data (ATTR_ENTITY_ID c) = Some eid"
    and "fst (get_appliance_by_entity_id h eid) = Inr (Some a)"
  shows "executor_jobs (snd (async_service_key_value c w h call_data method)) =
           executor_jobs h @ [ApplianceCall a method [Val key, Val val]]"
  using assms
  by (simp add: async_service_key_value_def getitem_Some resolver_state
        async_add_executor_job_def)

lemma digits_60: "digits 60 = ''60''"
  by (simp add: digits.simps digit_char_def)

lemma setting_schema_example:
  "SERVICE_SETTING_SCHEMA example_const quiet setting_call_raw = Inr setting_call_validated"
  by (simp add: SERVICE_SETTING_SCHEMA_def Schema_def example_const_def quiet_def
      accept_str_def v_str_def Coerce_str_def str_int_def digits_60
      setting_call_raw_def setting_call_validated_def)

text \<open>
  C3, as the claim states it, fails: the schema accepts the pair
  (\<open>Temperature\<close>, the integer 60), and \<^verbatim>\<open>set_setting\<close> receives the string
  \<open>60\<close>, which is not the integer.
\<close>

theorem key_value_unmodified_counterexample:
  "SERVICE_SETTING_SCHEMA example_const quiet setting_call_raw = Inr setting_call_validated
   \<and> map_of setting_call_raw (ATTR_VALUE example_const) = Some (PInt 60)
   \<and> executor_jobs
       (snd (async_service_setting example_const quiet example_hass setting_call_validated)) =
       [ApplianceCall 9 ''set_setting'' [Val (PStr ''Temperature''), Val (PStr ''60'')]]
   \<and> PStr ''60'' \<noteq> PInt 60"
proof -
  have k: "map_of setting_call_validated (ATTR_KEY example_const) = Some (PStr ''Temperature'')"
    "map_of setting_call_validated (ATTR_VALUE example_const) = Some (PStr ''60'')"
    "map_of setting_call_validated (ATTR_ENTITY_ID example_const) = Some (PStr ''switch.oven_power'')"
    by (simp_all add: setting_call_validated_def example_const_def)
  have "executor_jobs
       (snd (async_service_setting example_const quiet example_hass setting_call_validated)) =
       [ApplianceCall 9 ''set_setting'' [Val (PStr ''Temperature''), Val (PStr ''60'')]]"
    using key_value_job [OF k example_resolves_oven, of quiet "''set_setting''"]
    by (simp add: async_service_setting_def example_hass_def)
  then show ?thesis
    by (simp add: setting_schema_example) (simp add: setting_call_raw_def example_const_def)
qed

text \<open>
  C3, amended. For a payload the setting schema accepts, with key \<open>key\<close> and value
  \<open>val\<close>, and an entity that resolves to an appliance \<open>a\<close>, each of the three
  key-value actions runs its vendor method on \<open>a\<close> with the key as given and the
  value as the schema's \<^verbatim>\<open>vol.Coerce(str)\<close> leaves it, \<^verbatim>\<open>str(val)\<close>; a value that
  is a string arrives unmodified. The three field names of the schema are taken to
  differ.
\<close>

theorem key_value_coerced:
  assumes "ATTR_ENTITY_ID c \<noteq> ATTR_KEY c" "ATTR_ENTITY_ID c \<noteq> ATTR_VALUE c"
    "ATTR_KEY c \<noteq> ATTR_VALUE c"
    and "SERVICE_SETTING_SCHEMA c w raw = Inr call_data"
    and "map_of raw (ATTR_KEY c) = Some key" "map_of raw (ATTR_VALUE c) = Some val"
    and "map_of call_data (ATTR_ENTITY_ID c) = Some eid"
    and "fst (get_appliance_by_entity_id h eid) = Inr (Some a)"
  shows "executor_jobs (snd (async_service_setting c w h call_data)) =
           executor_jobs h @
             [ApplianceCall a ''set_setting'' [Val key, Val (PStr (py_str val))]]
       \<and> executor_jobs (snd (async_service_option_active c w h call_data)) =
           executor_jobs h @
             [ApplianceCall a ''set_options_active_program'' [Val key, Val (PStr (py_str val))]]
       \<and> executor_jobs (snd (async_service_option_selected c w h call_data)) =
           executor_jobs h @
             [ApplianceCall a ''set_options_selected_program'' [Val key, Val (PStr (py_str val))]]
       \<and> (\<forall>s. val = PStr s \<longrightarrow> PStr (py_str val) = val)"
proof -
  note kv = setting_schema_key_value [OF assms(1-6)]
  show ?thesis
    using key_value_job [OF kv [THEN conjunct1] kv [THEN conjunct2] assms(7,8)]
    by (simp add: async_service_setting_def async_service_option_active_def
        async_service_option_selected_def)
qed

theorem key_value_coerced_witness:
  "executor_jobs
     (snd (async_service_setting example_const quiet example_hass setting_call_validated)) =
     [ApplianceCall 9 ''set_setting'' [Val (PStr ''Temperature''), Val (PStr ''60'')]]
   \<and> executor_jobs
     (snd (async_service_option_active example_const quiet example_hass setting_call_validated)) =
     [ApplianceCall 9 ''set_options_active_program''
        [Val (PStr ''Temperature''), Val (PStr ''60'')]]
   \<and> executor_jobs
     (snd (async_service_option_selected example_const quiet example_hass setting_call_validated)) =
     [ApplianceCall 9 ''set_options_selected_program''
        [Val (PStr ''Temperature''), Val (PStr ''60'')]]"
proof -
  have d: "ATTR_ENTITY_ID example_const \<noteq> ATTR_KEY example_const"
    "ATTR_ENTITY_ID example_const \<noteq> ATTR_VALUE example_const"
    "ATTR_KEY example_const \<noteq> ATTR_VALUE example_const"
    by (simp_all add: example_const_def)
  have r: "map_of setting_call_raw (ATTR_KEY example_const) = Some (PStr ''Temperature'')"
    "map_of setting_call_raw (ATTR_VALUE example_const) = Some (PInt 60)"
    by (simp_all add: setting_call_raw_def example_const_def)
  have e: "map_of setting_call_validated (ATTR_ENTITY_ID example_const) =
      Some (PStr ''switch.oven_power'')"
    by (simp add: setting_call_validated_def example_const_def)
  show ?thesis
    using key_value_coerced [OF d setting_schema_example r e example_resolves_oven]
    by (simp add: example_hass_def str_int_def digits_60)
qed

section \<open>Properties of setup and unload\<close>

lemma all_py_iff: "all_py bs \<longleftrightarrow> (\<forall>b \<in> set bs. b)"
  by (induction bs) auto

text \<open>
  C6. For a registered account, \<^verbatim>\<open>async_unload_entry\<close> returns whether every
  platform of \<^verbatim>\<open>PLATFORMS\<close> reported a successful unload. If all did, the account's
  entry is removed from the registry (and nothing else changes); if one did not, the
  host's state, and so the registry entry, is exactly as before and the result is
  \<^verbatim>\<open>False\<close>.
\<close>

theorem unload_removes_iff_all_ok:
  assumes "hass_data h = Some reg" and "map_of reg (entry_id entry) = Some hc"
    and "ok = (\<forall>component \<in> set PLATFORMS. forward_entry_unload w (entry_id entry) component)"
  shows "fst (async_unload_entry w h entry) = Inr ok
       \<and> (if ok
           then snd (async_unload_entry w h entry) =
                  h\<lparr>hass_data := Some (AList.delete (entry_id entry) reg)\<rparr>
                \<and> map_of (AList.delete (entry_id entry) reg) (entry_id entry) = None
           else snd (async_unload_entry w h entry) = h)"
  using assms
  by (simp add: async_unload_entry_def Let_def all_py_iff delete_conv')

theorem unload_removes_iff_all_ok_witness:
  "fst (async_unload_entry quiet example_hass acct1) = Inr True
   \<and> snd (async_unload_entry quiet example_hass acct1) =
       example_hass\<lparr>hass_data := Some [(''acct2'', \<lparr>devices = [\<lparr>device = oven\<rparr>]\<rparr>)]\<rparr>
   \<and> fst (async_unload_entry light_fails example_hass acct1) = Inr False
   \<and> snd (async_unload_entry light_fails example_hass acct1) = example_hass"
proof -
  have reg: "hass_data example_hass =
      Some [(''acct1'', \<lparr>devices = [\<lparr>device = dishwasher\<rparr>]\<rparr>),
            (''acct2'', \<lparr>devices = [\<lparr>device = oven\<rparr>]\<rparr>)]"
    by (simp add: example_hass_def)
  have hc: "map_of [(''acct1'', \<lparr>devices = [\<lparr>device = dishwasher\<rparr>]\<rparr>),
            (''acct2'', \<lparr>devices = [\<lparr>device = oven\<rparr>]\<rparr>)] (entry_id acct1) =
      Some \<lparr>devices = [\<lparr>device = dishwasher\<rparr>]\<rparr>"
    by (simp add: acct1_def)
  have ok: "True = (\<forall>component \<in> set PLATFORMS.
      forward_entry_unload quiet (entry_id acct1) component)"
    by (simp add: quiet_def)
  have ko: "False = (\<forall>component \<in> set PLATFORMS.
      forward_entry_unload light_fails (entry_id acct1) component)"
    by (simp add: light_fails_def PLATFORMS_def)
  show ?thesis
    using unload_removes_iff_all_ok [OF reg hc ok] unload_removes_iff_all_ok [OF reg hc ko]
    by (simp add: acct1_def)
qed

text \<open>
  C10. When the startup configuration has no section for the module's domain,
  \<^verbatim>\<open>async_setup\<close> returns \<^verbatim>\<open>True\<close> and its only effect is to set the registry to
  the empty map: no OAuth implementation is registered and the service registry is
  as before, so a service absent before the setup (each of the seven, on a fresh
  host) is absent after it.
\<close>

theorem setup_unconfigured:
  assumes "map_of config (DOMAIN c) = None"
  shows "async_setup c h config = (Inr True, h\<lparr>hass_data := Some []\<rparr>)
       \<and> oauth_impls (snd (async_setup c h config)) = oauth_impls h
       \<and> services (snd (async_setup c h config)) = services h
       \<and> has_service (snd (async_setup c h config)) d svc = has_service h d svc"
  using assms by (simp add: async_setup_def has_service_def)

theorem setup_unconfigured_witness:
  "async_setup example_const fresh_hass unconfigured =
     (Inr True, fresh_hass\<lparr>hass_data := Some []\<rparr>)
   \<and> oauth_impls (snd (async_setup example_const fresh_hass unconfigured)) = []
   \<and> services (snd (async_setup example_const fresh_hass unconfigured)) = []
   \<and> \<not> has_service (snd (async_setup example_const fresh_hass unconfigured))
         ''home_connect'' ''start_program''"
proof -
  have u: "map_of unconfigured (DOMAIN example_const) = None"
    by (simp add: unconfigured_def example_const_def)
  show ?thesis
    using setup_unconfigured [OF u, of fresh_hass "''home_connect''" "''start_program''"]
    by (simp add: fresh_hass_def has_service_def)
qed

text \<open>With the module's section in the configuration, the same setup registers the
  OAuth implementation and the seven services.\<close>

lemma setup_configured_example:
  "fst (async_setup example_const fresh_hass configured) = Inr True
   \<and> map fst (services (snd (async_setup example_const fresh_hass configured))) =
       [(''home_connect'', ''set_option_active''), (''home_connect'', ''set_option_selected''),
        (''home_connect'', ''change_setting''), (''home_connect'', ''pause_program''),
        (''home_connect'', ''resume_program''), (''home_connect'', ''select_program''),
        (''home_connect'', ''start_program'')]
   \<and> length (oauth_impls (snd (async_setup example_const fresh_hass configured))) = 1"
  by (simp add: async_setup_def configured_def example_const_def fresh_hass_def getitem_def
      register_services_def async_register_def async_register_implementation_def Let_def)

section \<open>Properties of the poller\<close>

lemma initialize_all_frame:
  "hass_data (snd (initialize_all w ds h)) = hass_data h
   \<and> logger (snd (initialize_all w ds h)) = logger h
   \<and> throttle (snd (initialize_all w ds h)) = throttle h
   \<and> count_list (executor_jobs (snd (initialize_all w ds h))) (GetDevices k) =
       count_list (executor_jobs h) (GetDevices k)"
proof (induction ds arbitrary: h)
  case Nil
  then show ?case by simp
next
  case (Cons dd ds)
  show ?case
  proof (cases "raises w (Initialize (device dd))")
    case None
    then show ?thesis
      using Cons.IH [of "h\<lparr>executor_jobs := executor_jobs h @ [Initialize (device dd)]\<rparr>"]
      by (simp add: async_add_executor_job_def)
  next
    case (Some e)
    then show ?thesis by (simp add: async_add_executor_job_def)
  qed
qed

lemma initialize_all_raises:
  assumes "\<forall>d \<in> set pre. raises w (Initialize (device d)) = None"
    and "raises w (Initialize (device dd)) = Some e"
  shows "fst (initialize_all w (pre @ dd # post) h) = Inl e"
  using assms
proof (induction pre arbitrary: h)
  case Nil
  then show ?case by (simp add: async_add_executor_job_def)
next
  case (Cons d pre)
  then show ?case by (simp add: async_add_executor_job_def)
qed

lemma poll_cycle_frame:
  "logger (snd (poll_cycle w h reg eid hc)) = logger h
   \<and> throttle (snd (poll_cycle w h reg eid hc)) = throttle h
   \<and> count_list (executor_jobs (snd (poll_cycle w h reg eid hc))) (GetDevices eid) =
       count_list (executor_jobs h) (GetDevices eid) + 1
   \<and> hass_data (snd (poll_cycle w h reg eid hc)) =
       (case fetched w eid of
          Inl e \<Rightarrow> hass_data h
        | Inr ds \<Rightarrow> Some (AList.update eid (hc\<lparr>devices := ds\<rparr>) reg))"
  by (cases "fetched w eid")
     (simp_all add: poll_cycle_def get_devices_def Let_def initialize_all_frame)

lemma poll_cycle_raises:
  assumes "fetched w eid = Inl e
     \<or> (\<exists>pre dd post. fetched w eid = Inr (pre @ dd # post)
          \<and> (\<forall>d \<in> set pre. raises w (Initialize (device d)) = None)
          \<and> raises w (Initialize (device dd)) = Some e)"
  shows "fst (poll_cycle w h reg eid hc) = Inl e"
  using assms
  by (auto simp: poll_cycle_def get_devices_def Let_def initialize_all_raises)

lemma body_result:
  assumes "hass_data h = Some reg" "map_of reg (entry_id entry) = Some hc"
  shows "update_all_devices_body w h entry =
     (case poll_cycle w h reg (entry_id entry) hc of
        (Inl (HTTPError code), h') \<Rightarrow>
           (Inr (), h'\<lparr>logger := logger h' @ [WarningCannotUpdate code]\<rparr>)
      | (Inl e, h') \<Rightarrow> (Inl e, h')
      | (Inr u, h') \<Rightarrow> (Inr (), h'))"
  using assms by (simp add: update_all_devices_body_def)

text \<open>
  C7, as the claim states it, fails in two places. The vendor lists the oven for
  \<open>acct1\<close> and answers 503 to the oven's initialization: the failure is caught and
  logged and nothing is raised, but the account's cached device list, the dishwasher
  before the poll, is the oven after it. And a failed fetch that the vendor library
  raises as its own \<^verbatim>\<open>HomeConnectError\<close> is not caught: the poll raises it and
  logs nothing.
\<close>

theorem transport_failure_counterexample:
  "fst (update_all_devices_body init_fails example_hass acct1) = Inr ()
   \<and> logger (snd (update_all_devices_body init_fails example_hass acct1)) =
       [WarningCannotUpdate 503]
   \<and> hass_data example_hass =
       Some [(''acct1'', \<lparr>devices = [\<lparr>device = dishwasher\<rparr>]\<rparr>),
             (''acct2'', \<lparr>devices = [\<lparr>device = oven\<rparr>]\<rparr>)]
   \<and> hass_data (snd (update_all_devices_body init_fails example_hass acct1)) =
       Some [(''acct1'', \<lparr>devices = [\<lparr>device = oven\<rparr>]\<rparr>),
             (''acct2'', \<lparr>devices = [\<lparr>device = oven\<rparr>]\<rparr>)]
   \<and> dishwasher \<noteq> oven
   \<and> fst (update_all_devices_body vendor_error example_hass acct1) = Inl HomeConnectError
   \<and> logger (snd (update_all_devices_body vendor_error example_hass acct1)) = []"
  by (simp add: update_all_devices_body_def poll_cycle_def get_devices_def Let_def
      async_add_executor_job_def init_fails_def vendor_error_def example_hass_def acct1_def
      dishwasher_def oven_def)

text \<open>
  C7, amended. Let a vendor call of a poll cycle fail with the exception \<open>e\<close>: the
  device-list fetch, or, after a successful fetch, the initialization of a device
  whose predecessors in the fetched list initialized without one. If \<open>e\<close> is an
  \<^verbatim>\<open>HTTPError\<close>, the poll returns without an exception and logs one warning with
  the status code; any other exception is raised out of the poll and nothing is
  logged. In both cases the registry is as before when the fetch failed, and the
  account's session holds the fetched device list when an initialization failed.
\<close>

theorem poll_failure_outcome:
  assumes "hass_data h = Some reg" "map_of reg (entry_id entry) = Some hc"
    and "fetched w (entry_id entry) = Inl e
     \<or> (\<exists>pre dd post. fetched w (entry_id entry) = Inr (pre @ dd # post)
          \<and> (\<forall>d \<in> set pre. raises w (Initialize (device d)) = None)
          \<and> raises w (Initialize (device dd)) = Some e)"
  shows "fst (update_all_devices_body w h entry) =
           (case e of HTTPError code \<Rightarrow> Inr () | _ \<Rightarrow> Inl e)
       \<and> logger (snd (update_all_devices_body w h entry)) =
           logger h @ (case e of HTTPError code \<Rightarrow> [WarningCannotUpdate code] | _ \<Rightarrow> [])
       \<and> hass_data (snd (update_all_devices_body w h entry)) =
           (case fetched w (entry_id entry) of
              Inl e' \<Rightarrow> Some reg
            | Inr ds \<Rightarrow> Some (AList.update (entry_id entry) (hc\<lparr>devices := ds\<rparr>) reg))"
proof -
  obtain r h' where p: "poll_cycle w h reg (entry_id entry) hc = (r, h')"
    by (cases "poll_cycle w h reg (entry_id entry) hc")
  have r: "r = Inl e"
    using poll_cycle_raises [OF assms(3), of h reg hc] p by simp
  have f: "logger h' = logger h"
    "hass_data h' = (case fetched w (entry_id entry) of
          Inl e' \<Rightarrow> hass_data h
        | Inr ds \<Rightarrow> Some (AList.update (entry_id entry) (hc\<lparr>devices := ds\<rparr>) reg))"
    using poll_cycle_frame [of w h reg "entry_id entry" hc] p by simp_all
  show ?thesis
    using body_result [OF assms(1,2), of w] p r f assms(1)
    by (cases e) (simp_all split: sum.splits)
qed

theorem poll_failure_outcome_witness:
  "fst (update_all_devices_body fetch_fails example_hass acct1) = Inr ()
   \<and> logger (snd (update_all_devices_body fetch_fails example_hass acct1)) =
       [WarningCannotUpdate 401]
   \<and> hass_data (snd (update_all_devices_body fetch_fails example_hass acct1)) =
       Some [(''acct1'', \<lparr>devices = [\<lparr>device = dishwasher\<rparr>]\<rparr>),
             (''acct2'', \<lparr>devices = [\<lparr>device = oven\<rparr>]\<rparr>)]
   \<and> fst (update_all_devices_body init_fails example_hass acct1) = Inr ()
   \<and> logger (snd (update_all_devices_body init_fails example_hass acct1)) =
       [WarningCannotUpdate 503]
   \<and> hass_data (snd (update_all_devices_body init_fails example_hass acct1)) =
       Some [(''acct1'', \<lparr>devices = [\<lparr>device = oven\<rparr>]\<rparr>),
             (''acct2'', \<lparr>devices = [\<lparr>device = oven\<rparr>]\<rparr>)]
   \<and> fst (update_all_devices_body vendor_error example_hass acct1) = Inl HomeConnectError
   \<and> logger (snd (update_all_devices_body vendor_error example_hass acct1)) = []
   \<and> hass_data (snd (update_all_devices_body vendor_error example_hass acct1)) =
       Some [(''acct1'', \<lparr>devices = [\<lparr>device = dishwasher\<rparr>]\<rparr>),
             (''acct2'', \<lparr>devices = [\<lparr>device = oven\<rparr>]\<rparr>)]"
proof -
  have reg: "hass_data example_hass =
      Some [(''acct1'', \<lparr>devices = [\<lparr>device = dishwasher\<rparr>]\<rparr>),
            (''acct2'', \<lparr>devices = [\<lparr>device = oven\<rparr>]\<rparr>)]"
    by (simp add: example_hass_def)
  have hc: "map_of [(''acct1'', \<lparr>devices = [\<lparr>device = dishwasher\<rparr>]\<rparr>),
            (''acct2'', \<lparr>devices = [\<lparr>device = oven\<rparr>]\<rparr>)] (entry_id acct1) =
      Some \<lparr>devices = [\<lparr>device = dishwasher\<rparr>]\<rparr>"
    by (simp add: acct1_def)
  have l: "logger example_hass = []" by (simp add: example_hass_def)
  have f1: "fetched fetch_fails (entry_id acct1) = Inl (HTTPError 401)"
    by (simp add: fetch_fails_def)
  have f2: "fetched init_fails (entry_id acct1) = Inr ([] @ \<lparr>device = oven\<rparr> # [])"
    by (simp add: init_fails_def)
  have r2: "raises init_fails (Initialize (device \<lparr>device = oven\<rparr>)) = Some (HTTPError 503)"
    by (simp add: init_fails_def)
  have f3: "fetched vendor_error (entry_id acct1) = Inl HomeConnectError"
    by (simp add: vendor_error_def)
  have c1: "fetched fetch_fails (entry_id acct1) = Inl (HTTPError 401)
     \<or> (\<exists>pre dd post. fetched fetch_fails (entry_id acct1) = Inr (pre @ dd # post)
          \<and> (\<forall>d \<in> set pre. raises fetch_fails (Initialize (device d)) = None)
          \<and> raises fetch_fails (Initialize (device dd)) = Some (HTTPError 401))"
    using f1 by simp
  have c2: "fetched init_fails (entry_id acct1) = Inl (HTTPError 503)
     \<or> (\<exists>pre dd post. fetched init_fails (entry_id acct1) = Inr (pre @ dd # post)
          \<and> (\<forall>d \<in> set pre. raises init_fails (Initialize (device d)) = None)
          \<and> raises init_fails (Initialize (device dd)) = Some (HTTPError 503))"
    using f2 r2 by (intro disjI2 exI [of _ "[]"] exI [of _ "\<lparr>device = oven\<rparr>"]) simp
  have c3: "fetched vendor_error (entry_id acct1) = Inl HomeConnectError
     \<or> (\<exists>pre dd post. fetched vendor_error (entry_id acct1) = Inr (pre @ dd # post)
          \<and> (\<forall>d \<in> set pre. raises vendor_error (Initialize (device d)) = None)
          \<and> raises vendor_error (Initialize (device dd)) = Some HomeConnectError)"
    using f3 by simp
  have g: "fetched fetch_fails ''acct1'' = Inl (HTTPError 401)"
    "fetched init_fails ''acct1'' = Inr [\<lparr>device = oven\<rparr>]"
    "fetched vendor_error ''acct1'' = Inl HomeConnectError"
    by (simp_all add: fetch_fails_def init_fails_def vendor_error_def)
  have w1: "fst (update_all_devices_body fetch_fails example_hass acct1) = Inr ()
   \<and> logger (snd (update_all_devices_body fetch_fails example_hass acct1)) =
       [WarningCannotUpdate 401]
   \<and> hass_data (snd (update_all_devices_body fetch_fails example_hass acct1)) =
       Some [(''acct1'', \<lparr>devices = [\<lparr>device = dishwasher\<rparr>]\<rparr>),
             (''acct2'', \<lparr>devices = [\<lparr>device = oven\<rparr>]\<rparr>)]"
    using poll_failure_outcome [OF reg hc c1] by (simp add: l g acct1_def)
  have w2: "fst (update_all_devices_body init_fails example_hass acct1) = Inr ()
   \<and> logger (snd (update_all_devices_body init_fails example_hass acct1)) =
       [WarningCannotUpdate 503]
   \<and> hass_data (snd (update_all_devices_body init_fails example_hass acct1)) =
       Some [(''acct1'', \<lparr>devices = [\<lparr>device = oven\<rparr>]\<rparr>),
             (''acct2'', \<lparr>devices = [\<lparr>device = oven\<rparr>]\<rparr>)]"
    using poll_failure_outcome [OF reg hc c2] by (simp add: l g acct1_def)
  have w3: "fst (update_all_devices_body vendor_error example_hass acct1) = Inl HomeConnectError
   \<and> logger (snd (update_all_devices_body vendor_error example_hass acct1)) = []
   \<and> hass_data (snd (update_all_devices_body vendor_error example_hass acct1)) =
       Some [(''acct1'', \<lparr>devices = [\<lparr>device = dishwasher\<rparr>]\<rparr>),
             (''acct2'', \<lparr>devices = [\<lparr>device = oven\<rparr>]\<rparr>)]"
    using poll_failure_outcome [OF reg hc c3] by (simp add: l g acct1_def)
  show ?thesis using w1 w2 w3 by simp
qed

lemma body_frame:
  "throttle (snd (update_all_devices_body w h entry)) = throttle h"
proof (cases "hass_data h")
  case None
  then show ?thesis by (simp add: update_all_devices_body_def)
next
  case (Some reg)
  show ?thesis
  proof (cases "map_of reg (entry_id entry)")
    case None
    then show ?thesis using Some by (simp add: update_all_devices_body_def)
  next
    case (Some hc)
    obtain r h' where p: "poll_cycle w h reg (entry_id entry) hc = (r, h')"
      by (cases "poll_cycle w h reg (entry_id entry) hc")
    have "throttle h' = throttle h"
      using poll_cycle_frame [of w h reg "entry_id entry" hc] p by simp
    then show ?thesis
      using body_result [OF \<open>hass_data h = Some reg\<close> Some, of w] p
      by (simp split: sum.splits exn.splits)
  qed
qed

lemma body_fetch_count:
  assumes "hass_data h = Some reg" "map_of reg (entry_id entry) = Some hc"
  shows "count_list (executor_jobs (snd (update_all_devices_body w h entry)))
           (GetDevices (entry_id entry)) =
         count_list (executor_jobs h) (GetDevices (entry_id entry)) + 1"
proof -
  obtain r h' where p: "poll_cycle w h reg (entry_id entry) hc = (r, h')"
    by (cases "poll_cycle w h reg (entry_id entry) hc")
  have "count_list (executor_jobs h') (GetDevices (entry_id entry)) =
         count_list (executor_jobs h) (GetDevices (entry_id entry)) + 1"
    using poll_cycle_frame [of w h reg "entry_id entry" hc] p by simp
  then show ?thesis
    using body_result [OF assms, of w] p
    by (simp split: sum.splits exn.splits)
qed

lemma throttle_runs:
  assumes "\<forall>t. throttle h = Some t \<longrightarrow> min_time < now - t"
  shows "Throttle min_time method now h entry = method (h\<lparr>throttle := Some now\<rparr>) entry"
  using assms by (auto simp: Throttle_def Let_def split: option.splits)

lemma executed_poll_recorded:
  assumes "\<forall>t. throttle h = Some t \<longrightarrow> SCAN_INTERVAL < now - t"
  shows "update_all_devices w now h entry =
           update_all_devices_body w (h\<lparr>throttle := Some now\<rparr>) entry"
    and "throttle (snd (update_all_devices w now h entry)) = Some now"
  using throttle_runs [OF assms] by (simp_all add: update_all_devices_def body_frame)


text \<open>
  C5. For a registered account whose poll at time \<open>t1\<close> executes (no execution of
  the poller recorded within the minute before), a second invocation at a time \<open>t2\<close>
  less than \<^verbatim>\<open>SCAN_INTERVAL\<close> after \<open>t1\<close> returns at once and leaves the host's
  state as it was: over the two invocations the account's device-list fetch ran
  exactly once.
\<close>

theorem second_poll_coalesced:
  assumes "hass_data h = Some reg" and "map_of reg (entry_id entry) = Some hc"
    and "\<forall>t. throttle h = Some t \<longrightarrow> SCAN_INTERVAL < t1 - t"
    and "t2 - t1 < SCAN_INTERVAL"
    and "h1 = snd (update_all_devices w1 t1 h entry)"
  shows "update_all_devices w2 t2 h1 entry = (Inr (), h1)
       \<and> count_list (executor_jobs (snd (update_all_devices w2 t2 h1 entry)))
           (GetDevices (entry_id entry)) =
         count_list (executor_jobs h) (GetDevices (entry_id entry)) + 1"
proof -
  let ?h0 = "h\<lparr>throttle := Some t1\<rparr>"
  note run = executed_poll_recorded [OF assms(3), of w1 entry]
  have th: "throttle h1 = Some t1" using run(2) assms(5) by simp
  have noop: "update_all_devices w2 t2 h1 entry = (Inr (), h1)"
    using th assms(4) by (simp add: update_all_devices_def Throttle_def Let_def)
  have "hass_data ?h0 = Some reg" using assms(1) by simp
  from body_fetch_count [OF this assms(2), of w1]
  have "count_list (executor_jobs h1) (GetDevices (entry_id entry)) =
          count_list (executor_jobs h) (GetDevices (entry_id entry)) + 1"
    using run(1) assms(5) by simp
  then show ?thesis using noop by simp
qed

theorem second_poll_coalesced_witness:
  "update_all_devices quiet 30000000 (snd (update_all_devices quiet 0 example_hass acct1)) acct1 =
     (Inr (), snd (update_all_devices quiet 0 example_hass acct1))
   \<and> count_list
       (executor_jobs (snd (update_all_devices quiet 30000000
          (snd (update_all_devices quiet 0 example_hass acct1)) acct1)))
       (GetDevices ''acct1'') = 1"
proof -
  have reg: "hass_data example_hass =
      Some [(''acct1'', \<lparr>devices = [\<lparr>device = dishwasher\<rparr>]\<rparr>),
            (''acct2'', \<lparr>devices = [\<lparr>device = oven\<rparr>]\<rparr>)]"
    by (simp add: example_hass_def)
  have hc: "map_of [(''acct1'', \<lparr>devices = [\<lparr>device = dishwasher\<rparr>]\<rparr>),
            (''acct2'', \<lparr>devices = [\<lparr>device = oven\<rparr>]\<rparr>)] (entry_id acct1) =
      Some \<lparr>devices = [\<lparr>device = dishwasher\<rparr>]\<rparr>"
    by (simp add: acct1_def)
  have first: "\<forall>t. throttle example_hass = Some t \<longrightarrow> SCAN_INTERVAL < 0 - t"
    by (simp add: example_hass_def)
  have within: "(30000000::int) - 0 < SCAN_INTERVAL"
    by (simp add: SCAN_INTERVAL_def timedelta_minutes_def)
  have j: "executor_jobs example_hass = []" by (simp add: example_hass_def)
  note both = second_poll_coalesced [OF reg hc first within refl, of quiet quiet]
  show ?thesis
    using both [THEN conjunct1] both [THEN conjunct2]
    by (simp add: j acct1_def)
qed





end
